theory Spec2Isabelle
  imports Complex_Main "HOL-Library.Log_Nat" "HOL-Library.Word"
begin

section \<open>Upload-to-asset pipeline: thumbnail and video handlers\<close>

text \<open>
  A shallow embedding of the two upload handlers of the video service and of the helpers
  of the video path (media probe and aspect classification, fast-start remux, presigning
  of the stored reference). Go strings are byte sequences and are modelled as
  \<^typ>\<open>string\<close>; a Go \<open>error\<close> is modelled by its message.
\<close>

type_synonym error = string

subsection \<open>The stored composite reference\<close>

text \<open>
  \<open>strings.Split(s, ",")\<close>: the standard library cuts \<open>s\<close> at every occurrence of the
  separator; the loop finds the next separator, emits the text before it and goes on
  behind it, and the remainder is the last segment. The separator at the only call site
  is the one-byte string \<open>","\<close>, so the model takes a single byte.
\<close>

function Split :: "string \<Rightarrow> char \<Rightarrow> string list" where
  "Split s sep =
     (case dropWhile (\<lambda>c. c \<noteq> sep) s of
        [] \<Rightarrow> [s]
      | _ # rest \<Rightarrow> takeWhile (\<lambda>c. c \<noteq> sep) s # Split rest sep)"
  by pat_completeness auto
termination
proof (relation "measure (\<lambda>(s, sep). length s)")
  show "wf (measure (\<lambda>(s, sep). length s))" by simp
next
  fix s :: string and sep x rest
  assume "dropWhile (\<lambda>c. c \<noteq> sep) s = x # rest"
  then have "length rest < length (dropWhile (\<lambda>c. c \<noteq> sep) s)" by simp
  also have "\<dots> \<le> length s" by (rule length_dropWhile_le)
  finally show "((rest, sep), (s, sep)) \<in> measure (\<lambda>(s, sep). length s)" by simp
qed

declare Split.simps [simp del]

text \<open>\<open>fmt.Sprintf("%s,%s", cfg.s3Bucket, s3FileKey)\<close> in \<open>handlerUploadVideo\<close>.\<close>

definition encodeRef :: "string \<Rightarrow> string \<Rightarrow> string" where
  "encodeRef bucket key = bucket @ '','' @ key"

text \<open>
  The decoding half of \<open>dbVideoToSignedVideo\<close>: split the stored string at the commas,
  reject anything but two segments, and read bucket and key off the two segments.
\<close>

definition decodeRef :: "string \<Rightarrow> error + (string \<times> string)" where
  "decodeRef url =
     (let urlSlice = Split url CHR '','' in
      if length urlSlice \<noteq> 2
      then Inl (''video URL is not in the expected format: '' @ url)
      else Inr (urlSlice ! 0, urlSlice ! 1))"

subsection \<open>Binary floating point\<close>

text \<open>
  Go's \<open>float64\<close> is IEEE 754 binary64, and its arithmetic rounds to nearest, ties to
  even. A finite binary64 value is a rational number, so a \<open>float64\<close> is modelled by the
  rational it denotes and an operation by the exact operation followed by the rounding
  \<open>f64_round\<close>: 53 significant bits, with the exponent clamped at \<open>-1022\<close> for the
  subnormal range. Infinities and NaN do not occur in the classifier: its operands are
  conversions of 64-bit integers, one quotient of two of them whose divisor was compared
  with zero first, and sums and differences of constants below 2; so the model has no
  overflow case.
\<close>

type_synonym float64 = rat

definition pow2 :: "int \<Rightarrow> rat" where
  "pow2 e = (if 0 \<le> e then 2 ^ nat e else 1 / 2 ^ nat (- e))"

text \<open>The binary exponent \<open>\<lfloor>log\<^sub>2 x\<rfloor>\<close> of a positive rational, from the bit lengths of
  numerator and denominator.\<close>

definition ilog2 :: "rat \<Rightarrow> int" where
  "ilog2 x = (case quotient_of x of (p, q) \<Rightarrow>
     let d = bitlen p - bitlen q in if pow2 d \<le> x then d else d - 1)"

definition round_even :: "rat \<Rightarrow> int" where
  "round_even q =
     (let f = \<lfloor>q\<rfloor>; d = q - of_int f in
      if d < 1 / 2 then f else if 1 / 2 < d then f + 1 else if even f then f else f + 1)"

definition f64_round :: "rat \<Rightarrow> float64" where
  "f64_round x =
     (if x = 0 then 0
      else let e = max (ilog2 \<bar>x\<bar>) (- 1022); u = pow2 (e - 52)
           in of_int (round_even (x / u)) * u)"

text \<open>\<open>float64(n)\<close> for an integer \<open>n\<close>, and the arithmetic operators on \<open>float64\<close>.\<close>

definition f64_of_int :: "int \<Rightarrow> float64" where
  "f64_of_int i = f64_round (of_int i)"

definition f64_div :: "float64 \<Rightarrow> float64 \<Rightarrow> float64" where
  "f64_div a b = f64_round (a / b)"

definition f64_sub :: "float64 \<Rightarrow> float64 \<Rightarrow> float64" where
  "f64_sub a b = f64_round (a - b)"

definition f64_add :: "float64 \<Rightarrow> float64 \<Rightarrow> float64" where
  "f64_add a b = f64_round (a + b)"

subsection \<open>Aspect classification\<close>

text \<open>
  The second half of \<open>getVideoAspectRatio\<close>, from the conversion of width and height to
  the three returns. The constant expressions \<open>9.0 / 16.0\<close> and \<open>16.0 / 9.0\<close> are
  evaluated exactly by the compiler and rounded once, when they become \<open>float64\<close>
  variables; the bounds of the two bands are computed from the variables, in \<open>float64\<close>.
\<close>

definition aspectRatioOf :: "int \<Rightarrow> int \<Rightarrow> error + string" where
  "aspectRatioOf w h =
     (let width = f64_of_int w; height = f64_of_int h in
      if height = 0 then Inl ''video height is zero, cannot determine aspect ratio''
      else
        let aspectRatio = f64_div width height;
            verticalAspectRatio = f64_round (9 / 16);
            horizontalAspectRatio = f64_round (16 / 9);
            aspectRatioTolerance = f64_round (5 / 100)
        in if f64_sub verticalAspectRatio aspectRatioTolerance \<le> aspectRatio
              \<and> aspectRatio \<le> f64_add verticalAspectRatio aspectRatioTolerance
           then Inr ''9:16''
           else if f64_sub horizontalAspectRatio aspectRatioTolerance \<le> aspectRatio
              \<and> aspectRatio \<le> f64_add horizontalAspectRatio aspectRatioTolerance
           then Inr ''16:9''
           else Inr ''other'')"

text \<open>The \<open>switch\<close> of \<open>handlerUploadVideo\<close> that turns the class into a key prefix.\<close>

definition directoryOf :: "string \<Rightarrow> string" where
  "directoryOf aspectRatio =
     (if aspectRatio = ''9:16'' then ''portrait''
      else if aspectRatio = ''16:9'' then ''landscape''
      else ''other'')"

text \<open>
  The classifier as the specification words it, over the exact ratio: within 0.05 of
  9/16, else within 0.05 of 16/9, else other.
\<close>

definition spec_aspect :: "rat \<Rightarrow> string" where
  "spec_aspect ratio =
     (if \<bar>ratio - 9 / 16\<bar> \<le> 5 / 100 then ''9:16''
      else if \<bar>ratio - 16 / 9\<bar> \<le> 5 / 100 then ''16:9''
      else ''other'')"

text \<open>The four band bounds as the code computes them.\<close>

definition verticalLower :: float64 where
  "verticalLower = f64_sub (f64_round (9 / 16)) (f64_round (5 / 100))"

definition verticalUpper :: float64 where
  "verticalUpper = f64_add (f64_round (9 / 16)) (f64_round (5 / 100))"

definition horizontalLower :: float64 where
  "horizontalLower = f64_sub (f64_round (16 / 9)) (f64_round (5 / 100))"

definition horizontalUpper :: float64 where
  "horizontalUpper = f64_add (f64_round (16 / 9)) (f64_round (5 / 100))"

subsection \<open>Data model\<close>

type_synonym uuid = "128 word"
type_synonym bytes = "8 word list"
type_synonym Duration = int

text \<open>\<open>time.Duration\<close> counts nanoseconds.\<close>

definition Minute :: Duration where
  "Minute = 60 * 1000000000"

text \<open>
  Modelled from the spec: the declaration of \<open>database.Video\<close> (package
  \<open>internal/database\<close>) is not among the sources. The record has the fields of the
  specification's VideoRecord, under the names the handlers use; the two URLs are
  nullable strings.
\<close>

record Video =
  ID :: uuid
  UserID :: uuid
  ThumbnailURL :: "string option"
  VideoURL :: "string option"
  UpdatedAt :: int

record apiConfig =
  jwtSecret :: string
  s3Bucket :: string

text \<open>
  What the handlers read from \<open>*http.Request\<close>: the path value, the headers, and the
  multipart body as the standard library parses it (an error, or for each file field the
  bytes of the file and the \<open>Content-Type\<close> of its part, empty when the part has none).
\<close>

record request =
  PathValue_videoID :: string
  Header :: "(string \<times> string) list"
  MultipartForm :: "error + (string \<rightharpoonup> bytes \<times> string)"

text \<open>
  The state the handlers act on: the record store, the local file system and the object
  store (bucket and key to body and content type).
\<close>

record world =
  db :: "uuid \<rightharpoonup> Video"
  disk :: "string \<rightharpoonup> bytes"
  objects :: "string \<times> string \<rightharpoonup> bytes \<times> string"

text \<open>
  What the handlers hand to \<open>respondWithError\<close> (status, message, error) and to
  \<open>respondWithJSON\<close> (status, payload); the two functions are not among the sources.
\<close>

datatype response =
  RespondWithError nat string "error option"
| RespondWithJSON nat Video

fun status :: "response \<Rightarrow> nat" where
  "status (RespondWithError code msg err) = code"
| "status (RespondWithJSON code payload) = code"

abbreviation StatusOK :: nat where "StatusOK \<equiv> 200"
abbreviation StatusBadRequest :: nat where "StatusBadRequest \<equiv> 400"
abbreviation StatusUnauthorized :: nat where "StatusUnauthorized \<equiv> 401"
abbreviation StatusInternalServerError :: nat where "StatusInternalServerError \<equiv> 500"

subsection \<open>Collaborators\<close>

text \<open>
  Everything the handlers call outside the sources is a parameter: library functions
  and the configuration's path helpers as functions of their arguments, and for each call
  that acts on the outside world the outcome it has during this request.
  \<^item> \<open>io_Copy_err\<close>: \<open>None\<close> when the copy succeeds, else the number of bytes written
    before the error, and the error;
  \<^item> \<open>ffprobe_run\<close>, \<open>ffprobe_json\<close>: the error of \<open>cmd.Run\<close>, if any, and what
    \<open>json.Unmarshal\<close> makes of the standard output (an error, or width and height
    of each stream, which are values of Go's \<open>int\<close>);
  \<^item> \<open>ffmpeg_run\<close>, \<open>ffmpeg_stderr\<close>, \<open>ffmpeg_output\<close>: the error of \<open>cmd.Run\<close>, if
    any, the captured error stream, and the bytes the process left at its output path
    (\<open>None\<close> when it wrote no file).
\<close>

record env =
  uuid_Parse :: "string \<Rightarrow> error + uuid"
  GetBearerToken :: "(string \<times> string) list \<Rightarrow> error + string"
  ValidateJWT :: "string \<Rightarrow> string \<Rightarrow> error + uuid"
  ParseMediaType :: "string \<Rightarrow> error + string"
  getAssetPath :: "string \<Rightarrow> string"
  getAssetDiskPath :: "string \<Rightarrow> string"
  getAssetURL :: "string \<Rightarrow> string"
  filepath_Join :: "string \<Rightarrow> string \<Rightarrow> string"
  time_Now :: int
  os_Create_err :: "error option"
  io_Copy_err :: "(nat \<times> error) option"
  CreateTemp :: "error + string"
  Seek_err :: "error option"
  ffprobe_run :: "error option"
  ffprobe_json :: "error + (int \<times> int) list"
  ffmpeg_run :: "error option"
  ffmpeg_stderr :: string
  ffmpeg_output :: "bytes option"
  os_Open_err :: "error option"
  PutObject_err :: "error option"
  UpdateVideo_err :: "error option"
  PresignGetObject :: "string \<Rightarrow> string \<Rightarrow> Duration \<Rightarrow> error + string"

text \<open>
  \<open>r.FormFile(name)\<close> parses the multipart body if that has not happened yet and
  returns the first file of the field.
\<close>

definition FormFile :: "request \<Rightarrow> string \<Rightarrow> error + (bytes \<times> string)" where
  "FormFile r name =
     (case MultipartForm r of
        Inl err \<Rightarrow> Inl err
      | Inr files \<Rightarrow>
          (case files name of
             None \<Rightarrow> Inl ''http: no such file''
           | Some f \<Rightarrow> Inr f))"

text \<open>
  Modelled from the spec: the record store is not among the sources; its interface is
  \<open>fetch(id) \<rightarrow> record | not-found\<close> and \<open>update(record) \<rightarrow> ok | error\<close>. An update
  that succeeds stores the record it was given under the record's id.
\<close>

definition GetVideo :: "world \<Rightarrow> uuid \<Rightarrow> error + Video" where
  "GetVideo s videoID =
     (case db s videoID of
        None \<Rightarrow> Inl ''sql: no rows in result set''
      | Some video \<Rightarrow> Inr video)"

definition UpdateVideo :: "env \<Rightarrow> Video \<Rightarrow> world \<Rightarrow> error + world" where
  "UpdateVideo env video s =
     (case UpdateVideo_err env of
        Some err \<Rightarrow> Inl err
      | None \<Rightarrow> Inr (s\<lparr>db := (db s)(ID video \<mapsto> video)\<rparr>))"

text \<open>The file system calls: \<open>os.Stat\<close> (the size), \<open>os.Open\<close> (the bytes to read),
  \<open>os.Remove\<close>, and the object store's \<open>PutObject\<close>.\<close>

definition os_Stat :: "world \<Rightarrow> string \<Rightarrow> error + nat" where
  "os_Stat s path =
     (case disk s path of
        None \<Rightarrow> Inl (''stat '' @ path @ '': no such file or directory'')
      | Some b \<Rightarrow> Inr (length b))"

definition os_Open :: "env \<Rightarrow> world \<Rightarrow> string \<Rightarrow> error + bytes" where
  "os_Open env s path =
     (case disk s path of
        None \<Rightarrow> Inl (''open '' @ path @ '': no such file or directory'')
      | Some b \<Rightarrow> (case os_Open_err env of Some err \<Rightarrow> Inl err | None \<Rightarrow> Inr b))"

definition os_Remove :: "string \<Rightarrow> world \<Rightarrow> world" where
  "os_Remove path s = s\<lparr>disk := (disk s)(path := None)\<rparr>"

definition PutObject ::
  "env \<Rightarrow> string \<Rightarrow> string \<Rightarrow> bytes \<Rightarrow> string \<Rightarrow> world \<Rightarrow> error + world" where
  "PutObject env bucket key body contentType s =
     (case PutObject_err env of
        Some err \<Rightarrow> Inl err
      | None \<Rightarrow> Inr (s\<lparr>objects := (objects s)((bucket, key) \<mapsto> (body, contentType))\<rparr>))"

text \<open>A deferred \<open>os.Remove(path)\<close>: it runs when the rest of the function has returned.\<close>

fun defer_os_Remove :: "string \<Rightarrow> response \<times> world \<Rightarrow> response \<times> world" where
  "defer_os_Remove path (resp, s) = (resp, os_Remove path s)"

subsection \<open>Thumbnail upload\<close>

definition handlerUploadThumbnail ::
  "env \<Rightarrow> apiConfig \<Rightarrow> request \<Rightarrow> world \<Rightarrow> response \<times> world" where
  "handlerUploadThumbnail env cfg r s =
     (case uuid_Parse env (PathValue_videoID r) of
        Inl err \<Rightarrow> (RespondWithError StatusBadRequest ''Invalid ID'' (Some err), s)
      | Inr videoID \<Rightarrow>
     (case GetBearerToken env (Header r) of
        Inl err \<Rightarrow> (RespondWithError StatusUnauthorized ''Couldn't find JWT'' (Some err), s)
      | Inr token \<Rightarrow>
     (case ValidateJWT env token (jwtSecret cfg) of
        Inl err \<Rightarrow> (RespondWithError StatusUnauthorized ''Couldn't validate JWT'' (Some err), s)
      | Inr userID \<Rightarrow>
     (case MultipartForm r of
        Inl err \<Rightarrow> (RespondWithError StatusBadRequest ''Couldn't parse form'' (Some err), s)
      | Inr files \<Rightarrow>
     (case FormFile r ''thumbnail'' of
        Inl err \<Rightarrow> (RespondWithError StatusBadRequest ''Couldn't get file'' (Some err), s)
      | Inr (file, contentType) \<Rightarrow>
          let mediaType = contentType in
          if mediaType = ''''
          then (RespondWithError StatusBadRequest ''Missing Content-Type for thumbnail'' None, s)
          else if mediaType \<noteq> ''image/jpeg'' \<and> mediaType \<noteq> ''image/png''
          then (RespondWithError StatusBadRequest ''Invalid file type'' None, s)
          else
            let assetPath = getAssetPath env mediaType;
                assetDiskPath = getAssetDiskPath env assetPath
            in
     (case os_Create_err env of
        Some err \<Rightarrow>
          (RespondWithError StatusInternalServerError ''Couldn't create file on server'' (Some err), s)
      | None \<Rightarrow>
     (case io_Copy_err env of
        Some (n, err) \<Rightarrow>
          (RespondWithError StatusInternalServerError ''Couldn't save file'' (Some err),
           s\<lparr>disk := (disk s)(assetDiskPath \<mapsto> take n file)\<rparr>)
      | None \<Rightarrow>
          let s1 = s\<lparr>disk := (disk s)(assetDiskPath \<mapsto> file)\<rparr> in
     (case GetVideo s1 videoID of
        Inl err \<Rightarrow>
          (RespondWithError StatusInternalServerError ''Couldn't get video from database'' (Some err), s1)
      | Inr video \<Rightarrow>
          if UserID video \<noteq> userID
          then (RespondWithError StatusUnauthorized ''User is not the owner of the video'' None, s1)
          else
            let thumbnailUrl = getAssetURL env assetPath;
                video = video\<lparr>ThumbnailURL := Some thumbnailUrl, UpdatedAt := time_Now env\<rparr>
            in
     (case UpdateVideo env video s1 of
        Inl err \<Rightarrow>
          (RespondWithError StatusInternalServerError ''Couldn't update video in database'' (Some err), s1)
      | Inr s2 \<Rightarrow> (RespondWithJSON StatusOK video, s2))))))))))"

subsection \<open>Video upload: probe, remux, presign\<close>

definition getVideoAspectRatio :: "env \<Rightarrow> string \<Rightarrow> error + string" where
  "getVideoAspectRatio env filePath =
     (case ffprobe_run env of
        Some err \<Rightarrow> Inl (''ffprobe command failed: '' @ err)
      | None \<Rightarrow>
     (case ffprobe_json env of
        Inl err \<Rightarrow> Inl (''could not parse ffprobe output: '' @ err)
      | Inr streams \<Rightarrow>
          if length streams = 0 then Inl ''no video streams found''
          else aspectRatioOf (fst (streams ! 0)) (snd (streams ! 0))))"

text \<open>
  \<open>processVideoForFastStart\<close> runs the remux process, which may leave a file at the
  output path whether or not it exits with success, and then inspects that path.
\<close>

definition processVideoForFastStart :: "env \<Rightarrow> string \<Rightarrow> world \<Rightarrow> (error + string) \<times> world" where
  "processVideoForFastStart env inputFilePath s =
     (let processedFilePath = inputFilePath @ ''.processing'';
          s1 = (case ffmpeg_output env of
                  None \<Rightarrow> s
                | Some b \<Rightarrow> s\<lparr>disk := (disk s)(processedFilePath \<mapsto> b)\<rparr>)
      in
      case ffmpeg_run env of
        Some err \<Rightarrow> (Inl (''couldn't process video: '' @ ffmpeg_stderr env @ '', '' @ err), s1)
      | None \<Rightarrow>
     (case os_Stat s1 processedFilePath of
        Inl err \<Rightarrow> (Inl (''couldn't stat processed file: '' @ err), s1)
      | Inr fileSize \<Rightarrow>
          if fileSize = 0 then (Inl ''processed file is empty'', s1)
          else (Inr processedFilePath, s1)))"

definition generatePresignedURL :: "env \<Rightarrow> string \<Rightarrow> string \<Rightarrow> Duration \<Rightarrow> error + string" where
  "generatePresignedURL env bucket key expireTime =
     (case PresignGetObject env bucket key expireTime of
        Inl err \<Rightarrow> Inl (''couldn't generate presigned URL: '' @ err)
      | Inr presignedURL \<Rightarrow> Inr presignedURL)"

definition dbVideoToSignedVideo :: "env \<Rightarrow> Video \<Rightarrow> error + Video" where
  "dbVideoToSignedVideo env video =
     (case VideoURL video of
        None \<Rightarrow> Inr video
      | Some url \<Rightarrow>
     (case decodeRef url of
        Inl err \<Rightarrow> Inl err
      | Inr (videoBucket, videoKey) \<Rightarrow>
     (case generatePresignedURL env videoBucket videoKey (10 * Minute) of
        Inl err \<Rightarrow> Inl (''couldn't generate presigned URL for video: '' @ err)
      | Inr presignedURL \<Rightarrow> Inr (video\<lparr>VideoURL := Some presignedURL\<rparr>))))"

text \<open>
  The sources hold two variants of \<open>handlerUploadVideo\<close>. The one modelled is the full
  one, with probe, remux and presigning; the file \<open>handler_upload_video.go\<close> is a
  shorter variant with the same authentication and ownership prefix that uploads the
  staged file as it is and stores a direct object URL.

  \<open>handlerUploadVideo\<close> is cut at its two deferred removals, so that each removal wraps
  the part of the function that runs after the \<open>defer\<close> statement:
  \<open>handlerUploadVideo_processed\<close> is the part behind \<open>defer os.Remove(processedFilePath)\<close>,
  \<open>handlerUploadVideo_staged\<close> the part behind \<open>defer os.Remove(tempFile.Name())\<close>.
\<close>

definition handlerUploadVideo_processed ::
  "env \<Rightarrow> apiConfig \<Rightarrow> Video \<Rightarrow> string \<Rightarrow> string \<Rightarrow> string \<Rightarrow> world \<Rightarrow> response \<times> world" where
  "handlerUploadVideo_processed env cfg video mediaType s3FileKey processedFilePath s =
     (case os_Open env s processedFilePath of
        Inl err \<Rightarrow>
          (RespondWithError StatusInternalServerError ''Couldn't open processed video file'' (Some err), s)
      | Inr processedFile \<Rightarrow>
     (case PutObject env (s3Bucket cfg) s3FileKey processedFile mediaType s of
        Inl err \<Rightarrow>
          (RespondWithError StatusInternalServerError ''Couldn't upload video to S3'' (Some err), s)
      | Inr s1 \<Rightarrow>
          let s3VideoURL = encodeRef (s3Bucket cfg) s3FileKey;
              video = video\<lparr>VideoURL := Some s3VideoURL\<rparr>
          in
     (case UpdateVideo env video s1 of
        Inl err \<Rightarrow>
          (RespondWithError StatusInternalServerError ''Couldn't update video in database'' (Some err), s1)
      | Inr s2 \<Rightarrow>
     (case dbVideoToSignedVideo env video of
        Inl err \<Rightarrow>
          (RespondWithError StatusInternalServerError ''Couldn't convert video to signed video'' (Some err), s2)
      | Inr presignedVideo \<Rightarrow> (RespondWithJSON StatusOK presignedVideo, s2)))))"

definition handlerUploadVideo_staged ::
  "env \<Rightarrow> apiConfig \<Rightarrow> Video \<Rightarrow> string \<Rightarrow> bytes \<Rightarrow> string \<Rightarrow> world \<Rightarrow> response \<times> world" where
  "handlerUploadVideo_staged env cfg video mediaType videoFile tempName s =
     (case io_Copy_err env of
        Some (n, err) \<Rightarrow>
          (RespondWithError StatusInternalServerError ''Couldn't save video'' (Some err),
           s\<lparr>disk := (disk s)(tempName \<mapsto> take n videoFile)\<rparr>)
      | None \<Rightarrow>
          let s1 = s\<lparr>disk := (disk s)(tempName \<mapsto> videoFile)\<rparr> in
     (case Seek_err env of
        Some err \<Rightarrow>
          (RespondWithError StatusInternalServerError ''Couldn't reset file pointer'' (Some err), s1)
      | None \<Rightarrow>
     (case getVideoAspectRatio env tempName of
        Inl err \<Rightarrow>
          (RespondWithError StatusInternalServerError ''Couldn't get video aspect ratio'' (Some err), s1)
      | Inr aspectRatio \<Rightarrow>
          let directory = directoryOf aspectRatio;
              s3FileKey = filepath_Join env directory (getAssetPath env mediaType)
          in
     (case processVideoForFastStart env tempName s1 of
        (Inl err, s2) \<Rightarrow>
          (RespondWithError StatusInternalServerError ''Couldn't process video for fast start'' (Some err), s2)
      | (Inr processedFilePath, s2) \<Rightarrow>
          defer_os_Remove processedFilePath
            (handlerUploadVideo_processed env cfg video mediaType s3FileKey processedFilePath s2)))))"

definition handlerUploadVideo ::
  "env \<Rightarrow> apiConfig \<Rightarrow> request \<Rightarrow> world \<Rightarrow> response \<times> world" where
  "handlerUploadVideo env cfg r s =
     (case uuid_Parse env (PathValue_videoID r) of
        Inl err \<Rightarrow> (RespondWithError StatusBadRequest ''Invalid ID'' (Some err), s)
      | Inr videoID \<Rightarrow>
     (case GetBearerToken env (Header r) of
        Inl err \<Rightarrow> (RespondWithError StatusUnauthorized ''Couldn't find JWT'' (Some err), s)
      | Inr token \<Rightarrow>
     (case ValidateJWT env token (jwtSecret cfg) of
        Inl err \<Rightarrow> (RespondWithError StatusUnauthorized ''Couldn't validate JWT'' (Some err), s)
      | Inr userID \<Rightarrow>
     (case GetVideo s videoID of
        Inl err \<Rightarrow>
          (RespondWithError StatusInternalServerError ''Couldn't get video from database'' (Some err), s)
      | Inr video \<Rightarrow>
          if UserID video \<noteq> userID
          then (RespondWithError StatusUnauthorized ''User is not the owner of the video'' None, s)
          else
     (case FormFile r ''video'' of
        Inl err \<Rightarrow> (RespondWithError StatusBadRequest ''Couldn't parse video form'' (Some err), s)
      | Inr (videoFile, contentType) \<Rightarrow>
     (case ParseMediaType env contentType of
        Inl err \<Rightarrow> (RespondWithError StatusBadRequest ''Couldn't parse media type'' (Some err), s)
      | Inr mediaType \<Rightarrow>
          if mediaType \<noteq> ''video/mp4''
          then (RespondWithError StatusBadRequest ''Invalid media type'' None, s)
          else
     (case CreateTemp env of
        Inl err \<Rightarrow>
          (RespondWithError StatusInternalServerError ''Couldn't create temporary video file'' (Some err), s)
      | Inr tempName \<Rightarrow>
          defer_os_Remove tempName
            (handlerUploadVideo_staged env cfg video mediaType videoFile tempName
               (s\<lparr>disk := (disk s)(tempName \<mapsto> [])\<rparr>)))))))))"

subsection \<open>A concrete deployment for evaluation\<close>

text \<open>
  One configuration, one record (id 7, owned by user 1), and collaborators under which
  every step succeeds: the token \<open>owner\<close> belongs to user 1 and the token \<open>other\<close> to
  user 2, the probe reports a 1920 by 1080 stream, and the remux leaves three bytes.
\<close>

definition test_cfg :: apiConfig where
  "test_cfg = \<lparr>jwtSecret = ''secret'', s3Bucket = ''tubely''\<rparr>"

definition test_video :: Video where
  "test_video = \<lparr>ID = 7, UserID = 1, ThumbnailURL = None, VideoURL = None, UpdatedAt = 1000\<rparr>"

definition test_world :: world where
  "test_world = \<lparr>db = [7 \<mapsto> test_video], disk = Map.empty, objects = Map.empty\<rparr>"

definition test_env :: env where
  "test_env = \<lparr>
     uuid_Parse = (\<lambda>s. if s = ''7'' then Inr 7 else Inl ''invalid UUID length''),
     GetBearerToken = (\<lambda>h. case map_of h ''Authorization'' of
                               None \<Rightarrow> Inl ''no auth header included in request''
                             | Some v \<Rightarrow> Inr (drop 7 v)),
     ValidateJWT = (\<lambda>token secret. if token = ''owner'' then Inr 1
                                   else if token = ''other'' then Inr 2
                                   else Inl ''invalid token''),
     ParseMediaType = (\<lambda>v. Inr (takeWhile (\<lambda>c. c \<noteq> CHR '';'') v)),
     getAssetPath = (\<lambda>mediaType. ''k.'' @ drop 6 mediaType),
     getAssetDiskPath = (\<lambda>assetPath. ''assets/'' @ assetPath),
     getAssetURL = (\<lambda>assetPath. ''http://localhost/assets/'' @ assetPath),
     filepath_Join = (\<lambda>dir name. dir @ ''/'' @ name),
     time_Now = 2000,
     os_Create_err = None,
     io_Copy_err = None,
     CreateTemp = Inr ''/tmp/up'',
     Seek_err = None,
     ffprobe_run = None,
     ffprobe_json = Inr [(1920, 1080)],
     ffmpeg_run = None,
     ffmpeg_stderr = [],
     ffmpeg_output = Some [0, 1, 2],
     os_Open_err = None,
     PutObject_err = None,
     UpdateVideo_err = None,
     PresignGetObject = (\<lambda>bucket key expires. Inr (''https://s3/'' @ bucket @ ''/'' @ key @ ''?sig''))
   \<rparr>"

definition test_request :: "string \<Rightarrow> string \<Rightarrow> string \<Rightarrow> request" where
  "test_request field token contentType =
     \<lparr>PathValue_videoID = ''7'',
      Header = [(''Authorization'', ''Bearer '' @ token)],
      MultipartForm = Inr [field \<mapsto> ([1, 2, 3, 4], contentType)]\<rparr>"

section \<open>Proofs\<close>

subsection \<open>Facts about splitting\<close>

lemma Split_no_sep: "sep \<notin> set s \<Longrightarrow> Split s sep = [s]"
proof -
  assume "sep \<notin> set s"
  then have d: "dropWhile (\<lambda>c. c \<noteq> sep) s = []" by auto
  show ?thesis by (subst Split.simps) (simp only: d list.case)
qed

lemma Split_append_sep:
  "sep \<notin> set a \<Longrightarrow> Split (a @ sep # b) sep = a # Split b sep"
proof -
  assume a: "sep \<notin> set a"
  then have d: "dropWhile (\<lambda>c. c \<noteq> sep) (a @ sep # b) = sep # b"
    by (auto simp: dropWhile_append3)
  have t: "takeWhile (\<lambda>c. c \<noteq> sep) (a @ sep # b) = a"
    using a by (auto simp: takeWhile_tail)
  show ?thesis
    by (subst Split.simps) (simp add: d t)
qed

lemma length_Split: "length (Split s sep) = Suc (count_list s sep)"
proof (induction s sep rule: Split.induct)
  case (1 s sep)
  show ?case
  proof (cases "dropWhile (\<lambda>c. c \<noteq> sep) s")
    case Nil
    then have "sep \<notin> set s" by (auto simp: dropWhile_eq_Nil_conv)
    then show ?thesis by (simp add: Split_no_sep)
  next
    case (Cons x rest)
    then have x: "x = sep" using hd_dropWhile [of "\<lambda>c. c \<noteq> sep" s] by force
    have s: "s = takeWhile (\<lambda>c. c \<noteq> sep) s @ sep # rest"
      using Cons x takeWhile_dropWhile_id [of "\<lambda>c. c \<noteq> sep" s] by simp
    have n: "count_list (takeWhile (\<lambda>c. c \<noteq> sep) s) sep = 0"
      using set_takeWhileD [of sep "\<lambda>c. c \<noteq> sep" s] by (auto simp: count_list_0_iff)
    have "count_list s sep = Suc (count_list rest sep)"
    proof -
      have "count_list s sep = count_list (takeWhile (\<lambda>c. c \<noteq> sep) s @ sep # rest) sep"
        using s by simp
      then show ?thesis by (simp add: n)
    qed
    moreover have "length (Split s sep) = Suc (length (Split rest sep))"
      by (subst Split.simps) (simp add: Cons)
    ultimately show ?thesis using "1.IH" [OF Cons] by simp
  qed
qed

subsection \<open>Facts about rounding\<close>

text \<open>A check of the rounding against a familiar value: the \<open>float64\<close> nearest to 0.1.\<close>

lemma f64_round_tenth: "f64_round (1 / 10) = 3602879701896397 / 36028797018963968"
  by code_simp

lemma pow2_powi: "pow2 e = 2 powi e"
  by (simp add: pow2_def power_int_def inverse_eq_divide power_one_over)

lemma pow2_pos: "0 < pow2 e"
  by (simp add: pow2_powi)

lemma pow2_add: "pow2 (a + b) = pow2 a * pow2 b"
  by (simp add: pow2_powi power_int_add)

lemma pow2_mono: "a \<le> b \<Longrightarrow> pow2 a \<le> pow2 b"
  by (simp add: pow2_powi power_int_increasing)

lemma pow2_nat: "pow2 (int n) = 2 ^ n"
  by (simp add: pow2_def)

lemma pow2_less_imp: "pow2 a < pow2 b \<Longrightarrow> a < b"
  using pow2_mono [of b a] by (cases "a < b") auto

lemma round_even_error: "\<bar>of_int (round_even q) - q\<bar> \<le> 1 / 2"
proof -
  have "of_int \<lfloor>q\<rfloor> \<le> q" and "q < of_int \<lfloor>q\<rfloor> + 1" by linarith+
  then show ?thesis
    unfolding round_even_def Let_def by (auto simp: abs_le_iff)
qed

lemma round_even_of_int: "round_even (of_int k) = k"
  by (simp add: round_even_def)

lemma ilog2_bounds:
  assumes "0 < x"
  shows "pow2 (ilog2 x) \<le> x" and "x < pow2 (ilog2 x + 1)"
proof -
  obtain p q where pq: "quotient_of x = (p, q)" by (cases "quotient_of x")
  have q: "0 < q" using pq quotient_of_denom_pos by blast
  have x: "x = of_int p / of_int q" using pq by (simp add: quotient_of_div)
  have p: "0 < p" using assms q x by (simp add: zero_less_divide_iff)
  define a where "a = bitlen p"
  define b where "b = bitlen q"
  have a1: "1 \<le> a" using p bitlen_eq_zero_iff [of p] bitlen_nonneg [of p] by (simp add: a_def)
  have b1: "1 \<le> b" using q bitlen_eq_zero_iff [of q] bitlen_nonneg [of q] by (simp add: b_def)
  have pl: "2 ^ nat (a - 1) \<le> p" and pu: "p < 2 ^ nat a"
    using bitlen_bounds [OF p] by (simp_all add: a_def)
  have ql: "2 ^ nat (b - 1) \<le> q" and qu: "q < 2 ^ nat b"
    using bitlen_bounds [OF q] by (simp_all add: b_def)
  have pl': "pow2 (a - 1) \<le> of_int p"
  proof -
    have "(of_int (2 ^ nat (a - 1)) :: rat) \<le> of_int p" using pl by (simp only: of_int_le_iff)
    then show ?thesis using a1 by (simp add: pow2_def)
  qed
  have pu': "of_int p < pow2 a"
  proof -
    have "(of_int p :: rat) < of_int (2 ^ nat a)" using pu by (simp only: of_int_less_iff)
    then show ?thesis using a1 by (simp add: pow2_def)
  qed
  have ql': "pow2 (b - 1) \<le> of_int q"
  proof -
    have "(of_int (2 ^ nat (b - 1)) :: rat) \<le> of_int q" using ql by (simp only: of_int_le_iff)
    then show ?thesis using b1 by (simp add: pow2_def)
  qed
  have qu': "of_int q < pow2 b"
  proof -
    have "(of_int q :: rat) < of_int (2 ^ nat b)" using qu by (simp only: of_int_less_iff)
    then show ?thesis using b1 by (simp add: pow2_def)
  qed
  have qr: "(0::rat) < of_int q" using q by simp
  have lo: "pow2 (a - b - 1) \<le> x"
  proof -
    have "pow2 (a - b - 1) * of_int q \<le> pow2 (a - b - 1) * pow2 b"
      using qu' pow2_pos [of "a - b - 1"] by (simp add: mult_left_mono less_imp_le)
    also have "\<dots> = pow2 (a - 1)" using pow2_add [of "a - b - 1" b] by simp
    also have "\<dots> \<le> of_int p" by (rule pl')
    finally show ?thesis using qr by (simp add: x pos_le_divide_eq)
  qed
  have hi: "x < pow2 (a - b + 1)"
  proof -
    have "of_int p < pow2 a" by (rule pu')
    also have "\<dots> = pow2 (a - b + 1) * pow2 (b - 1)" using pow2_add [of "a - b + 1" "b - 1"] by simp
    also have "\<dots> \<le> pow2 (a - b + 1) * of_int q"
      using ql' pow2_pos [of "a - b + 1"] by (simp add: mult_left_mono less_imp_le)
    finally show ?thesis using qr by (simp add: x pos_divide_less_eq)
  qed
  have e: "ilog2 x = (if pow2 (a - b) \<le> x then a - b else a - b - 1)"
    by (simp add: ilog2_def pq a_def b_def Let_def)
  show "pow2 (ilog2 x) \<le> x" using lo by (simp add: e)
  show "x < pow2 (ilog2 x + 1)" using hi by (auto simp: e not_le)
qed


lemma f64_round_error:
  assumes "pow2 (- 1022) \<le> \<bar>x\<bar>"
  shows "\<bar>f64_round x - x\<bar> \<le> \<bar>x\<bar> / 2 ^ 53"
proof -
  have x0: "0 < \<bar>x\<bar>" using assms pow2_pos [of "- 1022"] by linarith
  define e where "e = ilog2 \<bar>x\<bar>"
  have lo: "pow2 e \<le> \<bar>x\<bar>" and hi: "\<bar>x\<bar> < pow2 (e + 1)"
    using ilog2_bounds [OF x0] by (simp_all add: e_def)
  have "pow2 (- 1022) < pow2 (e + 1)" using assms hi by linarith
  then have e: "- 1022 \<le> e" using pow2_less_imp [of "- 1022" "e + 1"] by simp
  define u where "u = pow2 (e - 52)"
  have u: "0 < u" by (simp add: u_def pow2_pos)
  have f: "f64_round x = of_int (round_even (x / u)) * u"
    using x0 e by (simp add: f64_round_def Let_def e_def [symmetric] u_def max_def)
  have "\<bar>of_int (round_even (x / u)) - x / u\<bar> * u \<le> 1 / 2 * u"
    using round_even_error [of "x / u"] u by (simp only: mult_right_mono less_imp_le)
  moreover have "\<bar>of_int (round_even (x / u)) - x / u\<bar> * u = \<bar>f64_round x - x\<bar>"
  proof -
    have "\<bar>of_int (round_even (x / u)) - x / u\<bar> * u = \<bar>(of_int (round_even (x / u)) - x / u) * u\<bar>"
      using u by (simp add: abs_mult)
    also have "(of_int (round_even (x / u)) - x / u) * u = f64_round x - x"
      using u by (simp add: f left_diff_distrib)
    finally show ?thesis .
  qed
  moreover have "1 / 2 * u = pow2 e / 2 ^ 53"
  proof -
    have "pow2 e = pow2 (e - 52) * pow2 52" using pow2_add [of "e - 52" 52] by simp
    then show ?thesis by (simp add: u_def pow2_def)
  qed
  moreover have "pow2 e / 2 ^ 53 \<le> \<bar>x\<bar> / 2 ^ 53" using lo by (simp add: divide_right_mono)
  ultimately show ?thesis by linarith
qed

lemma f64_round_int:
  assumes "\<bar>i\<bar> < 2 ^ 53"
  shows "f64_round (of_int i) = of_int i"
proof (cases "i = 0")
  case True
  then show ?thesis by (simp add: f64_round_def)
next
  case False
  define x :: rat where "x = of_int i"
  have x1: "1 \<le> \<bar>x\<bar>"
  proof -
    have "1 \<le> \<bar>i\<bar>" using False by simp
    then have "(of_int 1 :: rat) \<le> of_int \<bar>i\<bar>" by (simp only: of_int_le_iff)
    then show ?thesis by (simp add: x_def)
  qed
  have xu: "\<bar>x\<bar> < pow2 53"
  proof -
    have "(of_int \<bar>i\<bar> :: rat) < of_int (2 ^ 53)" using assms by (simp only: of_int_less_iff)
    then show ?thesis by (simp add: x_def pow2_def)
  qed
  have x0: "0 < \<bar>x\<bar>" using x1 by linarith
  define e where "e = ilog2 \<bar>x\<bar>"
  have lo: "pow2 e \<le> \<bar>x\<bar>" and hi: "\<bar>x\<bar> < pow2 (e + 1)"
    using ilog2_bounds [OF x0] by (simp_all add: e_def)
  have "pow2 0 < pow2 (e + 1)" using x1 hi by (simp add: pow2_def)
  then have e0: "0 \<le> e" using pow2_less_imp [of 0 "e + 1"] by simp
  have "pow2 e < pow2 53" using lo xu by linarith
  then have e53: "e \<le> 52" using pow2_less_imp [of e 53] by simp
  define n where "n = nat (52 - e)"
  define u where "u = pow2 (e - 52)"
  have u: "u = 1 / 2 ^ n"
  proof (cases "e = 52")
    case True
    then show ?thesis by (simp add: u_def n_def pow2_def)
  next
    case False
    then have "e - 52 < 0" using e53 by simp
    then show ?thesis by (simp add: u_def n_def pow2_def)
  qed
  have q: "x / u = of_int (i * 2 ^ n)" by (simp add: u x_def)
  have f: "f64_round x = of_int (round_even (x / u)) * u"
    using x0 e0 by (simp add: f64_round_def Let_def e_def [symmetric] u_def max_def)
  have "f64_round x = of_int (i * 2 ^ n) * u"
    by (simp only: f q round_even_of_int)
  also have "\<dots> = x" by (simp add: u x_def)
  finally show ?thesis by (simp add: x_def)
qed


lemma f64_round_pos_bounds:
  assumes "pow2 (- 1022) \<le> r"
  shows "r - r / 2 ^ 53 \<le> f64_round r" and "f64_round r \<le> r + r / 2 ^ 53"
proof -
  have r: "0 < r" using assms pow2_pos [of "- 1022"] by linarith
  then have "pow2 (- 1022) \<le> \<bar>r\<bar>" using assms by simp
  from f64_round_error [OF this] have "\<bar>f64_round r - r\<bar> \<le> r / 2 ^ 53" using r by simp
  then show "r - r / 2 ^ 53 \<le> f64_round r" and "f64_round r \<le> r + r / 2 ^ 53"
    by linarith+
qed

lemma f64_round_nonpos:
  assumes "r \<le> 0" and "r = 0 \<or> pow2 (- 1022) \<le> - r"
  shows "f64_round r \<le> 0"
proof (cases "r = 0")
  case True
  then show ?thesis by (simp add: f64_round_def)
next
  case False
  then have "pow2 (- 1022) \<le> \<bar>r\<bar>" using assms by simp
  from f64_round_error [OF this] have "\<bar>f64_round r - r\<bar> \<le> - r / 2 ^ 53"
    using assms(1) by simp
  then have "f64_round r \<le> r - r / 2 ^ 53" by linarith
  also have "\<dots> \<le> 0" using assms(1) by (simp add: field_simps)
  finally show ?thesis .
qed

lemma pow2_numerals:
  "(2::rat) ^ 48 = 281474976710656" "(2::rat) ^ 51 = 2251799813685248"
  "(2::rat) ^ 53 = 9007199254740992"
  by simp_all

lemma ratio_gap:
  fixes w h a b :: int
  assumes h: "0 < h" "h < 2 ^ 40" and b: "0 < b" "b \<le> 180"
    and ne: "(of_int w / of_int h :: rat) \<noteq> of_int a / of_int b"
  shows "1 / 2 ^ 48 \<le> \<bar>(of_int w / of_int h :: rat) - of_int a / of_int b\<bar>"
proof -
  define k where "k = w * b - a * h"
  have hb: "(0::rat) < of_int h * of_int b" using h b by simp
  have d: "(of_int w / of_int h :: rat) - of_int a / of_int b = of_int k / (of_int h * of_int b)"
    using h b by (simp add: k_def field_simps)
  have "k \<noteq> 0"
  proof
    assume "k = 0"
    then have "(of_int w / of_int h :: rat) - of_int a / of_int b = 0" using d by simp
    then show False using ne by simp
  qed
  then have "1 \<le> \<bar>k\<bar>" by simp
  then have "(of_int 1 :: rat) \<le> of_int \<bar>k\<bar>" by (simp only: of_int_le_iff)
  then have k1: "(1::rat) \<le> \<bar>of_int k\<bar>" by simp
  have "h * b \<le> 2 ^ 40 * 180" using h b by (intro mult_mono) simp_all
  then have "(of_int (h * b) :: rat) \<le> of_int (2 ^ 40 * 180)" by (simp only: of_int_le_iff)
  then have u: "(of_int h * of_int b :: rat) \<le> 2 ^ 48" by simp
  have "(1::rat) / 2 ^ 48 \<le> 1 / (of_int h * of_int b)"
    using hb u by (simp add: frac_le)
  also have "\<dots> \<le> \<bar>of_int k\<bar> / (of_int h * of_int b)"
    using hb k1 by (simp add: divide_right_mono)
  also have "\<dots> = \<bar>(of_int w / of_int h :: rat) - of_int a / of_int b\<bar>"
    using hb h b by (simp add: d abs_divide abs_mult)
  finally show ?thesis .
qed

lemma ratio_magnitude:
  fixes w h :: int
  assumes h: "0 < h" "h < 2 ^ 40" and w: "0 < w"
  shows "pow2 (- 1022) \<le> (of_int w / of_int h :: rat)"
proof -
  have "pow2 (- 1022) \<le> pow2 (- 40)" by (rule pow2_mono) simp
  also have "\<dots> = 1 / 2 ^ 40" by (simp add: pow2_def)
  also have "\<dots> \<le> 1 / of_int h"
  proof -
    have "(of_int h :: rat) \<le> of_int (2 ^ 40)" using h by (simp only: of_int_le_iff)
    then show ?thesis using h by (simp add: frac_le)
  qed
  also have "\<dots> \<le> of_int w / of_int h"
  proof -
    have "1 \<le> w" using w by simp
    then have "(of_int 1 :: rat) \<le> of_int w" by (simp only: of_int_le_iff)
    then show ?thesis using h by (simp add: divide_right_mono)
  qed
  finally show ?thesis .
qed

lemma band_lower:
  fixes w h a b :: int and T :: rat
  defines "r \<equiv> of_int w / of_int h" and "B \<equiv> of_int a / of_int b"
  assumes h: "0 < h" "h < 2 ^ 40" and b: "0 < b" "b \<le> 180"
    and B: "1 / 2 \<le> B" "B \<le> 2"
    and T: "T \<le> f64_round B" "B - 1 / 2 ^ 51 \<le> T" "T \<le> B + 1 / 2 ^ 51"
  shows "T \<le> f64_round r \<longleftrightarrow> B \<le> r"
proof (cases "r = B")
  case True
  then show ?thesis using T(1) by simp
next
  case False
  then have gap: "1 / 2 ^ 48 \<le> \<bar>r - B\<bar>"
    unfolding r_def B_def using ratio_gap [OF h b] by blast
  show ?thesis
  proof (cases "B \<le> r")
    case True
    then have rB: "B + 1 / 2 ^ 48 \<le> r" using gap by (simp only: pow2_numerals; linarith)
    then have "0 < r" using B by simp
    then have "0 < w" using h by (simp add: r_def zero_less_divide_iff)
    then have "pow2 (- 1022) \<le> r" unfolding r_def using ratio_magnitude [OF h] by blast
    from f64_round_pos_bounds(1) [OF this] have "r - r / 2 ^ 53 \<le> f64_round r" .
    then have "T \<le> f64_round r" using rB T(3) B by (simp only: pow2_numerals; linarith)
    then show ?thesis using True by simp
  next
    case False
    then have rB: "r \<le> B - 1 / 2 ^ 48" using gap by (simp only: pow2_numerals; linarith)
    have "f64_round r < T"
    proof (cases "0 < r")
      case True
      then have "0 < w" using h by (simp add: r_def zero_less_divide_iff)
      then have "pow2 (- 1022) \<le> r" unfolding r_def using ratio_magnitude [OF h] by blast
      from f64_round_pos_bounds(2) [OF this] have "f64_round r \<le> r + r / 2 ^ 53" .
      then show ?thesis using rB T(2) B by (simp only: pow2_numerals; linarith)
    next
      case False
      then have r0: "r \<le> 0" by simp
      have "r = 0 \<or> pow2 (- 1022) \<le> - r"
      proof (cases "r = 0")
        case True
        then show ?thesis by simp
      next
        case False
        then have "r < 0" using r0 by simp
        then have "0 < - w" using h by (simp add: r_def divide_less_0_iff)
        from ratio_magnitude [OF h this] show ?thesis by (simp add: r_def)
      qed
      from f64_round_nonpos [OF r0 this] show ?thesis using T(2) B by (simp only: pow2_numerals; linarith)
    qed
    then show ?thesis using False by simp
  qed
qed

lemma band_upper:
  fixes w h a b :: int and T :: rat
  defines "r \<equiv> of_int w / of_int h" and "B \<equiv> of_int a / of_int b"
  assumes h: "0 < h" "h < 2 ^ 40" and b: "0 < b" "b \<le> 180"
    and B: "1 / 2 \<le> B" "B \<le> 2"
    and T: "f64_round B \<le> T" "B - 1 / 2 ^ 51 \<le> T" "T \<le> B + 1 / 2 ^ 51"
  shows "f64_round r \<le> T \<longleftrightarrow> r \<le> B"
proof (cases "r = B")
  case True
  then show ?thesis using T(1) by simp
next
  case False
  then have gap: "1 / 2 ^ 48 \<le> \<bar>r - B\<bar>"
    unfolding r_def B_def using ratio_gap [OF h b] by blast
  show ?thesis
  proof (cases "r \<le> B")
    case False
    then have rB: "B + 1 / 2 ^ 48 \<le> r" using gap by (simp only: pow2_numerals; linarith)
    then have "0 < r" using B by simp
    then have "0 < w" using h by (simp add: r_def zero_less_divide_iff)
    then have "pow2 (- 1022) \<le> r" unfolding r_def using ratio_magnitude [OF h] by blast
    from f64_round_pos_bounds(1) [OF this] have "r - r / 2 ^ 53 \<le> f64_round r" .
    then have "T < f64_round r" using rB T(3) B by (simp only: pow2_numerals; linarith)
    then show ?thesis using False by simp
  next
    case True
    then have rB: "r \<le> B - 1 / 2 ^ 48" using gap by (simp only: pow2_numerals; linarith)
    have "f64_round r \<le> T"
    proof (cases "0 < r")
      case True
      then have "0 < w" using h by (simp add: r_def zero_less_divide_iff)
      then have "pow2 (- 1022) \<le> r" unfolding r_def using ratio_magnitude [OF h] by blast
      from f64_round_pos_bounds(2) [OF this] have "f64_round r \<le> r + r / 2 ^ 53" .
      then show ?thesis using rB T(2) B by (simp only: pow2_numerals; linarith)
    next
      case False
      then have r0: "r \<le> 0" by simp
      have "r = 0 \<or> pow2 (- 1022) \<le> - r"
      proof (cases "r = 0")
        case True
        then show ?thesis by simp
      next
        case False
        then have "r < 0" using r0 by simp
        then have "0 < - w" using h by (simp add: r_def divide_less_0_iff)
        from ratio_magnitude [OF h this] show ?thesis by (simp add: r_def)
      qed
      from f64_round_nonpos [OF r0 this] show ?thesis using T(2) B by (simp only: pow2_numerals; linarith)
    qed
    then show ?thesis using True by simp
  qed
qed


lemma verticalLower_facts:
  "verticalLower \<le> f64_round (41 / 80)" "41 / 80 - 1 / 2 ^ 51 \<le> verticalLower" "verticalLower \<le> 41 / 80 + 1 / 2 ^ 51"
  by code_simp+

lemma verticalUpper_facts:
  "f64_round (49 / 80) \<le> verticalUpper" "49 / 80 - 1 / 2 ^ 51 \<le> verticalUpper" "verticalUpper \<le> 49 / 80 + 1 / 2 ^ 51"
  by code_simp+

lemma horizontalLower_facts:
  "horizontalLower \<le> f64_round (311 / 180)" "311 / 180 - 1 / 2 ^ 51 \<le> horizontalLower" "horizontalLower \<le> 311 / 180 + 1 / 2 ^ 51"
  by code_simp+

lemma horizontalUpper_facts:
  "f64_round (329 / 180) \<le> horizontalUpper" "329 / 180 - 1 / 2 ^ 51 \<le> horizontalUpper" "horizontalUpper \<le> 329 / 180 + 1 / 2 ^ 51"
  by code_simp+

lemma aspectRatioOf_thresholds:
  "aspectRatioOf w h =
     (if f64_of_int h = 0 then Inl ''video height is zero, cannot determine aspect ratio''
      else if verticalLower \<le> f64_div (f64_of_int w) (f64_of_int h) \<and> f64_div (f64_of_int w) (f64_of_int h) \<le> verticalUpper
      then Inr ''9:16''
      else if horizontalLower \<le> f64_div (f64_of_int w) (f64_of_int h) \<and> f64_div (f64_of_int w) (f64_of_int h) \<le> horizontalUpper
      then Inr ''16:9'' else Inr ''other'')"
  by (simp add: aspectRatioOf_def Let_def verticalLower_def verticalUpper_def horizontalLower_def horizontalUpper_def)

lemma aspect_bounded:
  assumes h: "0 < h" "h < 2 ^ 40" and w: "\<bar>w\<bar> < 2 ^ 53"
  shows "aspectRatioOf w h = Inr (spec_aspect (of_int w / of_int h))"
proof -
  define r :: rat where "r = of_int w / of_int h"
  have "\<bar>h\<bar> < 2 ^ 53" using h by simp
  then have fh: "f64_of_int h = of_int h" by (simp add: f64_of_int_def f64_round_int)
  have fw: "f64_of_int w = of_int w" using w by (simp add: f64_of_int_def f64_round_int)
  have h0: "f64_of_int h \<noteq> 0" using h by (simp add: fh)
  have q: "f64_div (f64_of_int w) (f64_of_int h) = f64_round r"
    by (simp add: f64_div_def fw fh r_def)
  have b1: "verticalLower \<le> f64_round r \<longleftrightarrow> 41 / 80 \<le> r"
    unfolding r_def using band_lower [OF h, of 80 41 verticalLower w] verticalLower_facts by simp
  have b2: "f64_round r \<le> verticalUpper \<longleftrightarrow> r \<le> 49 / 80"
    unfolding r_def using band_upper [OF h, of 80 49 verticalUpper w] verticalUpper_facts by simp
  have b3: "horizontalLower \<le> f64_round r \<longleftrightarrow> 311 / 180 \<le> r"
    unfolding r_def using band_lower [OF h, of 180 311 horizontalLower w] horizontalLower_facts by simp
  have b4: "f64_round r \<le> horizontalUpper \<longleftrightarrow> r \<le> 329 / 180"
    unfolding r_def using band_upper [OF h, of 180 329 horizontalUpper w] horizontalUpper_facts by simp
  have s1: "\<bar>r - 9 / 16\<bar> \<le> 5 / 100 \<longleftrightarrow> 41 / 80 \<le> r \<and> r \<le> 49 / 80" by linarith
  have s2: "\<bar>r - 16 / 9\<bar> \<le> 5 / 100 \<longleftrightarrow> 311 / 180 \<le> r \<and> r \<le> 329 / 180" by linarith
  show ?thesis
    unfolding aspectRatioOf_thresholds spec_aspect_def r_def [symmetric] q
    using h0 by (simp only: b1 b2 b3 b4 s1 s2 if_False) simp
qed

subsection \<open>Facts about the reference codec\<close>

lemma Split_pair:
  "sep \<notin> set a \<Longrightarrow> sep \<notin> set b \<Longrightarrow> Split (a @ sep # b) sep = [a, b]"
  by (simp add: Split_append_sep Split_no_sep)

lemma decodeRef_pair:
  assumes "CHR '','' \<notin> set bucket" and "CHR '','' \<notin> set key"
  shows "decodeRef (encodeRef bucket key) = Inr (bucket, key)"
  using Split_pair [OF assms] by (simp add: decodeRef_def encodeRef_def)

lemma count_list_append: "count_list (xs @ ys) x = count_list xs x + count_list ys x"
  by (induction xs) auto

lemma decodeRef_encodeRef_Inr:
  assumes "decodeRef (encodeRef bucket key) = Inr (b, k)"
  shows "b = bucket \<and> k = key"
proof -
  have "length (Split (encodeRef bucket key) CHR '','') = 2"
    using assms by (auto simp: decodeRef_def Let_def split: if_splits)
  then have "count_list (bucket @ CHR '','' # key) CHR '','' = 1"
    by (simp add: length_Split encodeRef_def)
  then have "count_list bucket CHR '','' = 0" and "count_list key CHR '','' = 0"
    by (simp_all add: count_list_append)
  then have "CHR '','' \<notin> set bucket" and "CHR '','' \<notin> set key"
    by (simp_all add: count_list_0_iff)
  from decodeRef_pair [OF this] show ?thesis using assms by simp
qed

lemma decodeRef_count:
  "decodeRef s =
     (if count_list s CHR '','' = 1
      then Inr (takeWhile (\<lambda>c. c \<noteq> CHR '','') s, tl (dropWhile (\<lambda>c. c \<noteq> CHR '','') s))
      else Inl (''video URL is not in the expected format: '' @ s))"
proof (cases "count_list s CHR '','' = 1")
  case False
  then show ?thesis by (simp add: decodeRef_def length_Split)
next
  case True
  define a where "a = takeWhile (\<lambda>c. c \<noteq> CHR '','') s"
  define d where "d = dropWhile (\<lambda>c. c \<noteq> CHR '','') s"
  have s: "s = a @ d" by (simp add: a_def d_def)
  have a: "CHR '','' \<notin> set a" using set_takeWhileD [of "CHR '',''" _ s] by (auto simp: a_def)
  then have a0: "count_list a CHR '','' = 0" by (simp add: count_list_0_iff)
  have "d \<noteq> []"
  proof
    assume "d = []"
    then have "count_list s CHR '','' = 0" using s a0 by simp
    then show False using True by simp
  qed
  then obtain x b where d: "d = x # b" by (cases d) auto
  have "dropWhile (\<lambda>c. c \<noteq> CHR '','') s = x # b" using d by (simp add: d_def)
  then have x: "x = CHR '',''" using hd_dropWhile [of "\<lambda>c. c \<noteq> CHR '',''" s] by force
  have "count_list s CHR '','' = Suc (count_list b CHR '','')"
    by (simp add: s d x count_list_append a0)
  then have "CHR '','' \<notin> set b" using True by (simp add: count_list_0_iff)
  from Split_pair [OF a this] have "Split s CHR '','' = [a, b]" by (simp add: s d x)
  then show ?thesis using True by (simp add: decodeRef_def a_def [symmetric] d_def [symmetric] d)
qed

subsection \<open>Facts about the handlers\<close>

lemma test_aspect: "aspectRatioOf 1920 1080 = Inr ''16:9''"
  by code_simp

lemmas handler_defs =
  handlerUploadVideo_def handlerUploadVideo_staged_def handlerUploadVideo_processed_def
  handlerUploadThumbnail_def processVideoForFastStart_def getVideoAspectRatio_def
  dbVideoToSignedVideo_def generatePresignedURL_def FormFile_def GetVideo_def UpdateVideo_def
  os_Stat_def os_Open_def os_Remove_def PutObject_def directoryOf_def Let_def

lemmas test_defs = test_env_def test_cfg_def test_world_def test_video_def test_request_def

lemma dbVideoToSignedVideo_encoded:
  assumes "dbVideoToSignedVideo env (video\<lparr>VideoURL := Some (encodeRef bucket key)\<rparr>) = Inr pv"
  shows "\<exists>url. PresignGetObject env bucket key (10 * Minute) = Inr url
               \<and> pv = video\<lparr>VideoURL := Some url\<rparr>"
proof (cases "decodeRef (encodeRef bucket key)")
  case (Inl err)
  then show ?thesis using assms by (simp add: dbVideoToSignedVideo_def)
next
  case (Inr p)
  obtain b k where p: "p = (b, k)" by (cases p)
  have bk: "b = bucket \<and> k = key" using Inr p decodeRef_encodeRef_Inr by blast
  show ?thesis
    using assms Inr p bk
    by (auto simp: dbVideoToSignedVideo_def generatePresignedURL_def split: sum.splits)
qed

lemma processed_ok:
  assumes "fst (handlerUploadVideo_processed env cfg video mediaType key path s)
             = RespondWithJSON code payload"
  shows "\<exists>body url.
           code = StatusOK
         \<and> db (snd (handlerUploadVideo_processed env cfg video mediaType key path s))
             = (db s)(ID video \<mapsto> video\<lparr>VideoURL := Some (encodeRef (s3Bucket cfg) key)\<rparr>)
         \<and> objects (snd (handlerUploadVideo_processed env cfg video mediaType key path s))
             = (objects s)((s3Bucket cfg, key) \<mapsto> (body, mediaType))
         \<and> PresignGetObject env (s3Bucket cfg) key (10 * Minute) = Inr url
         \<and> payload = video\<lparr>VideoURL := Some url\<rparr>"
proof -
  obtain body where o: "os_Open env s path = Inr body"
    using assms by (cases "os_Open env s path") (auto simp: handlerUploadVideo_processed_def)
  have p: "PutObject_err env = None"
    using assms o by (cases "PutObject_err env") (auto simp: handlerUploadVideo_processed_def PutObject_def)
  have u: "UpdateVideo_err env = None"
    using assms o p
    by (cases "UpdateVideo_err env")
       (auto simp: handlerUploadVideo_processed_def PutObject_def UpdateVideo_def Let_def)
  obtain pv where d: "dbVideoToSignedVideo env (video\<lparr>VideoURL := Some (encodeRef (s3Bucket cfg) key)\<rparr>) = Inr pv"
    using assms o p u
    by (cases "dbVideoToSignedVideo env (video\<lparr>VideoURL := Some (encodeRef (s3Bucket cfg) key)\<rparr>)")
       (auto simp: handlerUploadVideo_processed_def PutObject_def UpdateVideo_def Let_def)
  from dbVideoToSignedVideo_encoded [OF d] obtain url where
    url: "PresignGetObject env (s3Bucket cfg) key (10 * Minute) = Inr url" "pv = video\<lparr>VideoURL := Some url\<rparr>"
    by blast
  show ?thesis
    using assms o p u d url
    by (intro exI [of _ body] exI [of _ url])
       (simp add: handlerUploadVideo_processed_def PutObject_def UpdateVideo_def Let_def)
qed

lemma staged_ok:
  assumes "fst (handlerUploadVideo_staged env cfg video mediaType videoFile tempName s)
             = RespondWithJSON code payload"
  shows "\<exists>key body url.
           code = StatusOK
         \<and> db (snd (handlerUploadVideo_staged env cfg video mediaType videoFile tempName s))
             = (db s)(ID video \<mapsto> video\<lparr>VideoURL := Some (encodeRef (s3Bucket cfg) key)\<rparr>)
         \<and> objects (snd (handlerUploadVideo_staged env cfg video mediaType videoFile tempName s))
             = (objects s)((s3Bucket cfg, key) \<mapsto> (body, mediaType))
         \<and> PresignGetObject env (s3Bucket cfg) key (10 * Minute) = Inr url
         \<and> payload = video\<lparr>VideoURL := Some url\<rparr>"
proof -
  have c: "io_Copy_err env = None"
    using assms by (cases "io_Copy_err env") (auto simp: handlerUploadVideo_staged_def)
  have k: "Seek_err env = None"
    using assms c by (cases "Seek_err env") (auto simp: handlerUploadVideo_staged_def Let_def)
  obtain aspect where a: "getVideoAspectRatio env tempName = Inr aspect"
    using assms c k
    by (cases "getVideoAspectRatio env tempName") (auto simp: handlerUploadVideo_staged_def Let_def)
  define s1 where "s1 = s\<lparr>disk := (disk s)(tempName \<mapsto> videoFile)\<rparr>"
  define key where "key = filepath_Join env (directoryOf aspect) (getAssetPath env mediaType)"
  obtain res s2 where f: "processVideoForFastStart env tempName s1 = (res, s2)"
    by (cases "processVideoForFastStart env tempName s1")
  have s2: "db s2 = db s \<and> objects s2 = objects s"
    using f by (auto simp: processVideoForFastStart_def s1_def Let_def split: option.splits sum.splits if_splits)
  obtain path where r: "res = Inr path"
    using assms c k a f
    by (cases res) (auto simp: handlerUploadVideo_staged_def Let_def s1_def)
  define out where "out = handlerUploadVideo_processed env cfg video mediaType key path s2"
  have h: "handlerUploadVideo_staged env cfg video mediaType videoFile tempName s
             = defer_os_Remove path out"
    using c k a f r by (simp add: handlerUploadVideo_staged_def Let_def s1_def key_def out_def)
  have "fst out = RespondWithJSON code payload"
    using assms h by (cases out) simp
  from processed_ok [OF this [unfolded out_def]] obtain body url where
    "code = StatusOK"
    "db (snd out) = (db s2)(ID video \<mapsto> video\<lparr>VideoURL := Some (encodeRef (s3Bucket cfg) key)\<rparr>)"
    "objects (snd out) = (objects s2)((s3Bucket cfg, key) \<mapsto> (body, mediaType))"
    "PresignGetObject env (s3Bucket cfg) key (10 * Minute) = Inr url"
    "payload = video\<lparr>VideoURL := Some url\<rparr>"
    unfolding out_def [symmetric] by blast
  then show ?thesis
    using s2 h by (cases out) (auto simp: os_Remove_def)
qed

lemma fst_defer_os_Remove: "fst (defer_os_Remove path x) = fst x"
  by (cases x) simp

text \<open>Whatever the wrapped part of the handler did, the deferred removal leaves no
  file at its path.\<close>

lemma defer_os_Remove_removes: "disk (snd (defer_os_Remove path x)) path = None"
  by (cases x) (simp add: os_Remove_def)

lemma processed_status:
  "status (fst (handlerUploadVideo_processed env cfg video mediaType key path s)) \<noteq> StatusBadRequest"
  by (auto simp: handlerUploadVideo_processed_def Let_def split: sum.splits)

lemma staged_status:
  "status (fst (handlerUploadVideo_staged env cfg video mediaType videoFile tempName s)) \<noteq> StatusBadRequest"
  by (auto simp: handlerUploadVideo_staged_def Let_def fst_defer_os_Remove processed_status
           split: sum.splits option.splits prod.splits)

lemma thumbnail_gate:
  assumes "uuid_Parse env (PathValue_videoID r) = Inr videoID"
    and "GetBearerToken env (Header r) = Inr token"
    and "ValidateJWT env token (jwtSecret cfg) = Inr userID"
    and "FormFile r ''thumbnail'' = Inr (file, contentType)"
  shows "status (fst (handlerUploadThumbnail env cfg r s)) = StatusBadRequest
           \<longleftrightarrow> contentType \<noteq> ''image/jpeg'' \<and> contentType \<noteq> ''image/png''"
proof -
  obtain files where f: "MultipartForm r = Inr files"
    using assms(4) by (cases "MultipartForm r") (auto simp: FormFile_def)
  show ?thesis
    using assms f
    by (auto simp: handlerUploadThumbnail_def Let_def UpdateVideo_def GetVideo_def
             split: sum.splits option.splits prod.splits)
qed

lemma thumbnail_rejects:
  assumes "uuid_Parse env (PathValue_videoID r) = Inr videoID"
    and "GetBearerToken env (Header r) = Inr token"
    and "ValidateJWT env token (jwtSecret cfg) = Inr userID"
    and "FormFile r ''thumbnail'' = Inr (file, ''image/png; charset=utf-8'')"
  shows "handlerUploadThumbnail env cfg r s =
           (RespondWithError StatusBadRequest ''Invalid file type'' None, s)"
proof -
  obtain files where f: "MultipartForm r = Inr files"
    using assms(4) by (cases "MultipartForm r") (auto simp: FormFile_def)
  show ?thesis using assms f by (simp add: handlerUploadThumbnail_def)
qed

lemma video_gate:
  assumes "uuid_Parse env (PathValue_videoID r) = Inr videoID"
    and "GetBearerToken env (Header r) = Inr token"
    and "ValidateJWT env token (jwtSecret cfg) = Inr userID"
    and "db s videoID = Some video" and "UserID video = userID"
    and "FormFile r ''video'' = Inr (file, contentType)"
  shows "status (fst (handlerUploadVideo env cfg r s)) = StatusBadRequest
           \<longleftrightarrow> ParseMediaType env contentType \<noteq> Inr ''video/mp4''"
  using assms
  by (auto simp: handlerUploadVideo_def GetVideo_def fst_defer_os_Remove staged_status
           split: sum.splits)

section \<open>The claims\<close>

text \<open>
  C1. The claim: in the thumbnail handler the record is fetched and its owner compared
  before the file is written, so that a non-owner's upload leaves no file. The handler
  creates the asset file and copies the upload into it first, and fetches the record
  afterwards; the video handler checks the owner before it touches the body. Evaluated on
  a PNG upload for record 7 by user 2, who does not own it: the answer is the
  unauthorized error and the record store is untouched, but the file is on disk.
\<close>

theorem thumbnail_non_owner_file_written:
  "fst (handlerUploadThumbnail test_env test_cfg (test_request ''thumbnail'' ''other'' ''image/png'') test_world)
     = RespondWithError StatusUnauthorized ''User is not the owner of the video'' None
   \<and> disk test_world ''assets/k.png'' = None
   \<and> disk (snd (handlerUploadThumbnail test_env test_cfg
                  (test_request ''thumbnail'' ''other'' ''image/png'') test_world)) ''assets/k.png''
     = Some [1, 2, 3, 4]
   \<and> db (snd (handlerUploadThumbnail test_env test_cfg
                  (test_request ''thumbnail'' ''other'' ''image/png'') test_world))
     = db test_world"
  by (simp add: handler_defs test_defs)

text \<open>
  C2. For every bucket without a comma and every key without a comma, decoding the
  encoded composite reference gives back the pair: the split of \<open>"<bucket>,<key>"\<close>
  at the comma is bucket and key.
\<close>

theorem reference_roundtrip:
  assumes "CHR '','' \<notin> set bucket" and "CHR '','' \<notin> set key"
  shows "encodeRef bucket key = bucket @ '','' @ key
    \<and> decodeRef (encodeRef bucket key) = Inr (bucket, key)"
  using decodeRef_pair [OF assms] by (simp add: encodeRef_def)

theorem reference_roundtrip_witness:
  "CHR '','' \<notin> set ''tubely'' \<and> CHR '','' \<notin> set ''landscape/k.mp4''
   \<and> decodeRef (encodeRef ''tubely'' ''landscape/k.mp4'') = Inr (''tubely'', ''landscape/k.mp4'')"
proof -
  have b: "CHR '','' \<notin> set ''tubely''" by simp
  have k: "CHR '','' \<notin> set ''landscape/k.mp4''" by simp
  have "decodeRef (encodeRef ''tubely'' ''landscape/k.mp4'') = Inr (''tubely'', ''landscape/k.mp4'')"
    using reference_roundtrip [OF b k] by (rule conjunct2)
  with b k show ?thesis by (intro conjI)
qed

text \<open>
  C3, as the code has it. Decoding fails with the format error exactly when the stored
  string does not hold exactly one comma, that is, when the split does not yield two
  segments. With exactly one comma it succeeds, with the text before the comma as the
  bucket and the text behind it as the key, and neither segment is required to be
  non-empty.
\<close>

theorem decode_format_error:
  "decodeRef s =
     (if count_list s CHR '','' = 1
      then Inr (takeWhile (\<lambda>c. c \<noteq> CHR '','') s, tl (dropWhile (\<lambda>c. c \<noteq> CHR '','') s))
      else Inl (''video URL is not in the expected format: '' @ s))"
  by (rule decodeRef_count)

text \<open>
  The string \<open>","\<close> splits into two empty segments and is decoded, to an empty bucket
  and an empty key, where the claim as stated expects the format error.
\<close>

theorem decode_empty_segments_counterexample:
  "decodeRef '','' = Inr ('''', '''')"
  by (simp add: decodeRef_count)

text \<open>
  C4, as the code has it. A height of zero is an error. For a positive height below
  \<open>2\<^sup>4\<^sup>0\<close> and a width of magnitude below \<open>2\<^sup>5\<^sup>3\<close>, the class is the one
  the exact ratio has: \<open>9:16\<close> (directory \<open>portrait\<close>) within 0.05 of 9/16, \<open>16:9\<close>
  (directory \<open>landscape\<close>) within 0.05 of 16/9, \<open>other\<close> otherwise; the ratios 0.5625,
  1.7778 and 1.0 fall in the three classes in that order.
\<close>

theorem aspect_classifier:
  "(h = 0 \<longrightarrow> aspectRatioOf w h = Inl ''video height is zero, cannot determine aspect ratio'')
   \<and> (0 < h \<and> h < 2 ^ 40 \<and> \<bar>w\<bar> < 2 ^ 53 \<longrightarrow>
        aspectRatioOf w h = Inr (spec_aspect (of_int w / of_int h)))
   \<and> aspectRatioOf 9 16 = Inr ''9:16'' \<and> directoryOf ''9:16'' = ''portrait''
   \<and> aspectRatioOf 8889 5000 = Inr ''16:9'' \<and> directoryOf ''16:9'' = ''landscape''
   \<and> aspectRatioOf 1 1 = Inr ''other'' \<and> directoryOf ''other'' = ''other''"
proof -
  have z: "aspectRatioOf w 0 = Inl ''video height is zero, cannot determine aspect ratio''"
    by (simp add: aspectRatioOf_def f64_of_int_def f64_round_def)
  have "aspectRatioOf 9 16 = Inr ''9:16''" by code_simp
  moreover have "aspectRatioOf 8889 5000 = Inr ''16:9''" by code_simp
  moreover have "aspectRatioOf 1 1 = Inr ''other''" by code_simp
  ultimately show ?thesis using z aspect_bounded [of h w] by (auto simp: directoryOf_def)
qed

theorem aspect_classifier_witness:
  "aspectRatioOf 5 0 = Inl ''video height is zero, cannot determine aspect ratio''
   \<and> (0::int) < 1080 \<and> (1080::int) < 2 ^ 40 \<and> \<bar>1920::int\<bar> < 2 ^ 53
   \<and> aspectRatioOf 1920 1080 = Inr ''16:9''"
  using aspect_classifier [of 0 5] aspect_classifier [of 1080 1920]
  by (simp add: spec_aspect_def)

text \<open>
  The bound on the dimensions is needed: the ratio is a rounded \<open>float64\<close> quotient of
  rounded conversions, compared with rounded bounds. For the width 40999999999999999 and
  the height 80000000000000000 the exact ratio lies below 9/16 - 0.05, and so does the
  \<open>float64\<close> quotient the code computes; the claim as stated expects \<open>other\<close> for
  either, and the code answers \<open>9:16\<close>.
\<close>

theorem aspect_huge_dimensions_counterexample:
  "(0::int) < 80000000000000000
   \<and> aspectRatioOf 40999999999999999 80000000000000000 = Inr ''9:16''
   \<and> spec_aspect (of_int 40999999999999999 / of_int 80000000000000000) = ''other''
   \<and> spec_aspect (f64_div (f64_of_int 40999999999999999) (f64_of_int 80000000000000000)) = ''other''"
  by code_simp

text \<open>
  C5. When the video upload answers with a record, the status is 200; the record store
  then holds, for the fetched record, the composite reference \<open>"<bucket>,<key>"\<close> of the
  key under which the object was put; the payload is the fetched record with the URL that
  presigning bucket and key for ten minutes gave. The record store after the whole request
  is the one the update left: presigning wrote nothing to it.
\<close>

theorem video_upload_persists_reference:
  assumes "fst (handlerUploadVideo env cfg r s) = RespondWithJSON code payload"
  shows "\<exists>videoID video key body url.
           code = StatusOK
         \<and> db s videoID = Some video
         \<and> objects (snd (handlerUploadVideo env cfg r s)) (s3Bucket cfg, key) = Some (body, ''video/mp4'')
         \<and> db (snd (handlerUploadVideo env cfg r s))
             = (db s)(ID video \<mapsto> video\<lparr>VideoURL := Some (s3Bucket cfg @ '','' @ key)\<rparr>)
         \<and> PresignGetObject env (s3Bucket cfg) key (10 * Minute) = Inr url
         \<and> 10 * Minute = 600 * 1000000000
         \<and> payload = video\<lparr>VideoURL := Some url\<rparr>"
proof -
  obtain videoID where 1: "uuid_Parse env (PathValue_videoID r) = Inr videoID"
    using assms by (cases "uuid_Parse env (PathValue_videoID r)") (auto simp: handlerUploadVideo_def)
  obtain token where 2: "GetBearerToken env (Header r) = Inr token"
    using assms 1 by (cases "GetBearerToken env (Header r)") (auto simp: handlerUploadVideo_def)
  obtain userID where 3: "ValidateJWT env token (jwtSecret cfg) = Inr userID"
    using assms 1 2 by (cases "ValidateJWT env token (jwtSecret cfg)") (auto simp: handlerUploadVideo_def)
  obtain video where 4: "db s videoID = Some video"
    using assms 1 2 3 by (cases "db s videoID") (auto simp: handlerUploadVideo_def GetVideo_def)
  have 5: "UserID video = userID"
    using assms 1 2 3 4 by (auto simp: handlerUploadVideo_def GetVideo_def split: if_splits)
  obtain videoFile contentType where 6: "FormFile r ''video'' = Inr (videoFile, contentType)"
    using assms 1 2 3 4 5
    by (cases "FormFile r ''video''") (auto simp: handlerUploadVideo_def GetVideo_def)
  have 7: "ParseMediaType env contentType = Inr ''video/mp4''"
    using assms 1 2 3 4 5 6
    by (cases "ParseMediaType env contentType")
       (auto simp: handlerUploadVideo_def GetVideo_def split: if_splits)
  obtain tempName where 8: "CreateTemp env = Inr tempName"
    using assms 1 2 3 4 5 6 7
    by (cases "CreateTemp env") (auto simp: handlerUploadVideo_def GetVideo_def)
  define s0 where "s0 = s\<lparr>disk := (disk s)(tempName \<mapsto> [])\<rparr>"
  define out where "out = handlerUploadVideo_staged env cfg video ''video/mp4'' videoFile tempName s0"
  have h: "handlerUploadVideo env cfg r s = defer_os_Remove tempName out"
    using 1 2 3 4 5 6 7 8 by (simp add: handlerUploadVideo_def GetVideo_def out_def s0_def)
  have "fst out = RespondWithJSON code payload"
    using assms h by (cases out) simp
  from staged_ok [OF this [unfolded out_def]] obtain key body url where
    "code = StatusOK"
    "db (snd out) = (db s0)(ID video \<mapsto> video\<lparr>VideoURL := Some (encodeRef (s3Bucket cfg) key)\<rparr>)"
    "objects (snd out) = (objects s0)((s3Bucket cfg, key) \<mapsto> (body, ''video/mp4''))"
    "PresignGetObject env (s3Bucket cfg) key (10 * Minute) = Inr url"
    "payload = video\<lparr>VideoURL := Some url\<rparr>"
    unfolding out_def [symmetric] by blast
  then have "code = StatusOK
         \<and> db s videoID = Some video
         \<and> objects (snd (handlerUploadVideo env cfg r s)) (s3Bucket cfg, key) = Some (body, ''video/mp4'')
         \<and> db (snd (handlerUploadVideo env cfg r s))
             = (db s)(ID video \<mapsto> video\<lparr>VideoURL := Some (s3Bucket cfg @ '','' @ key)\<rparr>)
         \<and> PresignGetObject env (s3Bucket cfg) key (10 * Minute) = Inr url
         \<and> 10 * Minute = 600 * 1000000000
         \<and> payload = video\<lparr>VideoURL := Some url\<rparr>"
    using 4 h by (cases out) (auto simp: os_Remove_def s0_def encodeRef_def Minute_def)
  then show ?thesis by blast
qed

theorem video_upload_persists_reference_witness:
  "fst (handlerUploadVideo test_env test_cfg (test_request ''video'' ''owner'' ''video/mp4'') test_world)
     = RespondWithJSON StatusOK (test_video\<lparr>VideoURL := Some ''https://s3/tubely/landscape/k.mp4?sig''\<rparr>)
   \<and> (\<exists>videoID video key body url.
           StatusOK = StatusOK
         \<and> db test_world videoID = Some video
         \<and> objects (snd (handlerUploadVideo test_env test_cfg
               (test_request ''video'' ''owner'' ''video/mp4'') test_world)) (s3Bucket test_cfg, key)
             = Some (body, ''video/mp4'')
         \<and> db (snd (handlerUploadVideo test_env test_cfg
               (test_request ''video'' ''owner'' ''video/mp4'') test_world))
             = (db test_world)(ID video \<mapsto> video\<lparr>VideoURL := Some (s3Bucket test_cfg @ '','' @ key)\<rparr>)
         \<and> PresignGetObject test_env (s3Bucket test_cfg) key (10 * Minute) = Inr url
         \<and> 10 * Minute = 600 * 1000000000
         \<and> test_video\<lparr>VideoURL := Some ''https://s3/tubely/landscape/k.mp4?sig''\<rparr>
             = video\<lparr>VideoURL := Some url\<rparr>)"
proof -
  have h: "fst (handlerUploadVideo test_env test_cfg (test_request ''video'' ''owner'' ''video/mp4'') test_world)
     = RespondWithJSON StatusOK (test_video\<lparr>VideoURL := Some ''https://s3/tubely/landscape/k.mp4?sig''\<rparr>)"
    by (simp add: handler_defs test_defs test_aspect decodeRef_count encodeRef_def)
  from video_upload_persists_reference [OF h] h show ?thesis by (intro conjI)
qed

text \<open>
  C6. The claim: both upload paths set \<open>updatedAt\<close> on the record before they persist it.
  The thumbnail handler assigns \<open>time.Now()\<close>; the video handler assigns the reference
  only. Evaluated on a successful video upload for a record last updated at 1000, at time
  2000: the record handed to the store still carries 1000, where the thumbnail upload
  hands over 2000.
\<close>

theorem video_upload_leaves_updatedAt:
  "status (fst (handlerUploadVideo test_env test_cfg
             (test_request ''video'' ''owner'' ''video/mp4'') test_world)) = StatusOK
   \<and> map_option UpdatedAt (db test_world 7) = Some 1000
   \<and> time_Now test_env = 2000
   \<and> map_option UpdatedAt (db (snd (handlerUploadVideo test_env test_cfg
             (test_request ''video'' ''owner'' ''video/mp4'') test_world)) 7) = Some 1000
   \<and> map_option UpdatedAt (db (snd (handlerUploadThumbnail test_env test_cfg
             (test_request ''thumbnail'' ''owner'' ''image/png'') test_world)) 7) = Some 2000"
  by (simp add: handler_defs test_defs test_aspect decodeRef_count encodeRef_def)

text \<open>
  C7. A video upload by an authenticated caller who does not own the record is answered
  with the unauthorized error whatever the multipart body holds, and the state is the one
  before the request: no temporary file has been created.
\<close>

theorem video_non_owner_rejected:
  assumes "uuid_Parse env (PathValue_videoID r) = Inr videoID"
    and "GetBearerToken env (Header r) = Inr token"
    and "ValidateJWT env token (jwtSecret cfg) = Inr userID"
    and "db s videoID = Some video"
    and "UserID video \<noteq> userID"
  shows "handlerUploadVideo env cfg (r\<lparr>MultipartForm := body\<rparr>) s =
           (RespondWithError StatusUnauthorized ''User is not the owner of the video'' None, s)"
  using assms by (simp add: handlerUploadVideo_def GetVideo_def)

theorem video_non_owner_rejected_witness:
  "uuid_Parse test_env (PathValue_videoID (test_request ''video'' ''other'' ''video/mp4'')) = Inr 7
   \<and> GetBearerToken test_env (Header (test_request ''video'' ''other'' ''video/mp4'')) = Inr ''other''
   \<and> ValidateJWT test_env ''other'' (jwtSecret test_cfg) = Inr 2
   \<and> db test_world 7 = Some test_video
   \<and> UserID test_video \<noteq> 2
   \<and> handlerUploadVideo test_env test_cfg (test_request ''video'' ''other'' ''video/mp4'') test_world =
       (RespondWithError StatusUnauthorized ''User is not the owner of the video'' None, test_world)"
proof -
  have 1: "uuid_Parse test_env (PathValue_videoID (test_request ''video'' ''other'' ''video/mp4'')) = Inr 7"
    by (simp add: test_defs)
  have 2: "GetBearerToken test_env (Header (test_request ''video'' ''other'' ''video/mp4'')) = Inr ''other''"
    by (simp add: test_defs)
  have 3: "ValidateJWT test_env ''other'' (jwtSecret test_cfg) = Inr 2"
    by (simp add: test_defs)
  have 4: "db test_world 7 = Some test_video" by (simp add: test_defs)
  have 5: "UserID test_video \<noteq> 2" by (simp add: test_defs)
  have "(test_request ''video'' ''other'' ''video/mp4'')
          \<lparr>MultipartForm := MultipartForm (test_request ''video'' ''other'' ''video/mp4'')\<rparr>
        = test_request ''video'' ''other'' ''video/mp4''" by simp
  then show ?thesis
    using video_non_owner_rejected [OF 1 2 3 4 5,
      of "MultipartForm (test_request ''video'' ''other'' ''video/mp4'')"] 1 2 3 4 5
    by simp
qed

text \<open>
  C8. The remux succeeds exactly when the process exits without error and its output file
  exists and is not empty, and then returns the \<open>.processing\<close> path. A process error is
  reported with the captured error stream and the error; a missing output and an empty
  output are each reported with a message of their own, and the three messages differ
  from each other whatever the details are.
\<close>

theorem remux_postconditions:
  "((\<exists>out. fst (processVideoForFastStart env p s) = Inr out) \<longleftrightarrow>
      ffmpeg_run env = None
      \<and> (\<exists>b. disk (snd (processVideoForFastStart env p s)) (p @ ''.processing'') = Some b \<and> b \<noteq> []))
   \<and> (\<forall>out. fst (processVideoForFastStart env p s) = Inr out \<longrightarrow> out = p @ ''.processing'')
   \<and> (\<forall>err. ffmpeg_run env = Some err \<longrightarrow>
         fst (processVideoForFastStart env p s)
           = Inl (''couldn't process video: '' @ ffmpeg_stderr env @ '', '' @ err))
   \<and> (ffmpeg_run env = None
        \<and> disk (snd (processVideoForFastStart env p s)) (p @ ''.processing'') = None \<longrightarrow>
         (\<exists>err. fst (processVideoForFastStart env p s)
                 = Inl (''couldn't stat processed file: '' @ err)))
   \<and> (ffmpeg_run env = None
        \<and> disk (snd (processVideoForFastStart env p s)) (p @ ''.processing'') = Some [] \<longrightarrow>
         fst (processVideoForFastStart env p s) = Inl ''processed file is empty'')
   \<and> (\<forall>a b. ''couldn't process video: '' @ a \<noteq> ''couldn't stat processed file: '' @ b
           \<and> ''couldn't process video: '' @ a \<noteq> ''processed file is empty''
           \<and> ''couldn't stat processed file: '' @ b \<noteq> ''processed file is empty'')"
  by (auto simp: processVideoForFastStart_def os_Stat_def Let_def split: option.splits)

theorem remux_postconditions_witness:
  "ffmpeg_run test_env = None
   \<and> disk (snd (processVideoForFastStart test_env ''/tmp/up'' test_world)) ''/tmp/up.processing''
       = Some [0, 1, 2]
   \<and> fst (processVideoForFastStart test_env ''/tmp/up'' test_world) = Inr ''/tmp/up.processing''
   \<and> ffmpeg_run (test_env\<lparr>ffmpeg_run := Some ''exit status 1'', ffmpeg_stderr := ''moov atom not found''\<rparr>)
       = Some ''exit status 1''
   \<and> fst (processVideoForFastStart
            (test_env\<lparr>ffmpeg_run := Some ''exit status 1'', ffmpeg_stderr := ''moov atom not found''\<rparr>)
            ''/tmp/up'' test_world)
       = Inl ''couldn't process video: moov atom not found, exit status 1''
   \<and> disk (snd (processVideoForFastStart (test_env\<lparr>ffmpeg_output := None\<rparr>) ''/tmp/up'' test_world))
        ''/tmp/up.processing'' = None
   \<and> (\<exists>err. fst (processVideoForFastStart (test_env\<lparr>ffmpeg_output := None\<rparr>) ''/tmp/up'' test_world)
              = Inl (''couldn't stat processed file: '' @ err))
   \<and> disk (snd (processVideoForFastStart (test_env\<lparr>ffmpeg_output := Some []\<rparr>) ''/tmp/up'' test_world))
        ''/tmp/up.processing'' = Some []
   \<and> fst (processVideoForFastStart (test_env\<lparr>ffmpeg_output := Some []\<rparr>) ''/tmp/up'' test_world)
       = Inl ''processed file is empty''"
proof -
  let ?fail = "test_env\<lparr>ffmpeg_run := Some ''exit status 1'', ffmpeg_stderr := ''moov atom not found''\<rparr>"
  let ?none = "test_env\<lparr>ffmpeg_output := None\<rparr>"
  let ?empty = "test_env\<lparr>ffmpeg_output := Some []\<rparr>"
  have r: "ffmpeg_run test_env = None" "ffmpeg_run ?none = None" "ffmpeg_run ?empty = None"
    by (simp_all add: test_defs)
  have rf: "ffmpeg_run ?fail = Some ''exit status 1''" "ffmpeg_stderr ?fail = ''moov atom not found''"
    by (simp_all add: test_defs)
  have d1: "disk (snd (processVideoForFastStart test_env ''/tmp/up'' test_world)) ''/tmp/up.processing''
       = Some [0, 1, 2]"
    by (simp add: processVideoForFastStart_def os_Stat_def test_defs Let_def)
  have d2: "disk (snd (processVideoForFastStart ?none ''/tmp/up'' test_world)) ''/tmp/up.processing'' = None"
    by (simp add: processVideoForFastStart_def os_Stat_def test_defs Let_def)
  have d3: "disk (snd (processVideoForFastStart ?empty ''/tmp/up'' test_world)) ''/tmp/up.processing'' = Some []"
    by (simp add: processVideoForFastStart_def os_Stat_def test_defs Let_def)
  have p: "''/tmp/up.processing'' = ''/tmp/up'' @ ''.processing''" by simp
  have "\<exists>out. fst (processVideoForFastStart test_env ''/tmp/up'' test_world) = Inr out"
    using remux_postconditions [of test_env "''/tmp/up''" test_world, THEN conjunct1] r(1) d1 [unfolded p] by blast
  then obtain out where o: "fst (processVideoForFastStart test_env ''/tmp/up'' test_world) = Inr out"
    by blast
  have "out = ''/tmp/up'' @ ''.processing''"
    using remux_postconditions [of test_env "''/tmp/up''" test_world, THEN conjunct2, THEN conjunct1] o
    by blast
  then have a: "fst (processVideoForFastStart test_env ''/tmp/up'' test_world) = Inr ''/tmp/up.processing''"
    using o by simp
  have b: "fst (processVideoForFastStart ?fail ''/tmp/up'' test_world)
       = Inl ''couldn't process video: moov atom not found, exit status 1''"
    using remux_postconditions [of ?fail "''/tmp/up''" test_world, THEN conjunct2, THEN conjunct2, THEN conjunct1] rf
    by simp
  have c: "\<exists>err. fst (processVideoForFastStart ?none ''/tmp/up'' test_world)
              = Inl (''couldn't stat processed file: '' @ err)"
    using remux_postconditions [of ?none "''/tmp/up''" test_world,
        THEN conjunct2, THEN conjunct2, THEN conjunct2, THEN conjunct1] r(2) d2 [unfolded p] by blast
  have e: "fst (processVideoForFastStart ?empty ''/tmp/up'' test_world) = Inl ''processed file is empty''"
    using remux_postconditions [of ?empty "''/tmp/up''" test_world,
        THEN conjunct2, THEN conjunct2, THEN conjunct2, THEN conjunct2, THEN conjunct1] r(3) d3 [unfolded p] by blast
  show ?thesis using r(1) d1 a rf(1) b d2 c d3 e by (intro conjI)
qed

text \<open>
  C9. The claim: the \<open>.processing\<close> file is removed on every exit path, also when the
  remux itself fails. The removal is deferred only after \<open>processVideoForFastStart\<close>
  has returned without error. Evaluated on a remux that exits with success and leaves an
  empty output, and on one that exits with an error after writing one byte: the request
  fails, the staged file is gone, and the \<open>.processing\<close> file stays on disk.
\<close>

theorem remux_failure_leaves_output:
  "fst (handlerUploadVideo (test_env\<lparr>ffmpeg_output := Some []\<rparr>) test_cfg
          (test_request ''video'' ''owner'' ''video/mp4'') test_world)
     = RespondWithError StatusInternalServerError ''Couldn't process video for fast start''
         (Some ''processed file is empty'')
   \<and> disk test_world ''/tmp/up.processing'' = None
   \<and> disk (snd (handlerUploadVideo (test_env\<lparr>ffmpeg_output := Some []\<rparr>) test_cfg
          (test_request ''video'' ''owner'' ''video/mp4'') test_world)) ''/tmp/up.processing'' = Some []
   \<and> disk (snd (handlerUploadVideo (test_env\<lparr>ffmpeg_output := Some []\<rparr>) test_cfg
          (test_request ''video'' ''owner'' ''video/mp4'') test_world)) ''/tmp/up'' = None
   \<and> fst (handlerUploadVideo (test_env\<lparr>ffmpeg_run := Some ''exit status 1'', ffmpeg_stderr := ''moov atom not found'',
                                          ffmpeg_output := Some [0]\<rparr>) test_cfg
          (test_request ''video'' ''owner'' ''video/mp4'') test_world)
     = RespondWithError StatusInternalServerError ''Couldn't process video for fast start''
         (Some ''couldn't process video: moov atom not found, exit status 1'')
   \<and> disk (snd (handlerUploadVideo (test_env\<lparr>ffmpeg_run := Some ''exit status 1'', ffmpeg_stderr := ''moov atom not found'',
                                          ffmpeg_output := Some [0]\<rparr>) test_cfg
          (test_request ''video'' ''owner'' ''video/mp4'') test_world)) ''/tmp/up.processing'' = Some [0]"
  by (simp add: handler_defs test_defs test_aspect)

text \<open>
  C10. For an authenticated request, the thumbnail handler answers bad request exactly
  when the raw \<open>Content-Type\<close> of the part is neither \<open>image/jpeg\<close> nor \<open>image/png\<close>;
  \<open>image/png; charset=utf-8\<close> is rejected as an invalid file type and nothing changes. The
  video handler, for the record's owner, answers bad request exactly when
  \<open>mime.ParseMediaType\<close> does not return \<open>video/mp4\<close> for the header, so a header with
  parameters that parses to \<open>video/mp4\<close> passes.
\<close>

theorem content_type_gates:
  assumes "uuid_Parse env (PathValue_videoID r) = Inr videoID"
    and "GetBearerToken env (Header r) = Inr token"
    and "ValidateJWT env token (jwtSecret cfg) = Inr userID"
  shows "(FormFile r ''thumbnail'' = Inr (file, contentType) \<longrightarrow>
            (status (fst (handlerUploadThumbnail env cfg r s)) = StatusBadRequest
               \<longleftrightarrow> contentType \<noteq> ''image/jpeg'' \<and> contentType \<noteq> ''image/png''))
       \<and> (FormFile r ''thumbnail'' = Inr (file, ''image/png; charset=utf-8'') \<longrightarrow>
            handlerUploadThumbnail env cfg r s =
              (RespondWithError StatusBadRequest ''Invalid file type'' None, s))
       \<and> (db s videoID = Some video \<and> UserID video = userID
            \<and> FormFile r ''video'' = Inr (file, contentType) \<longrightarrow>
            (status (fst (handlerUploadVideo env cfg r s)) = StatusBadRequest
               \<longleftrightarrow> ParseMediaType env contentType \<noteq> Inr ''video/mp4''))"
  using thumbnail_gate [OF assms] thumbnail_rejects [OF assms] video_gate [OF assms]
  by blast

theorem content_type_gates_witness:
  "uuid_Parse test_env (PathValue_videoID (test_request ''thumbnail'' ''owner'' ''image/png; charset=utf-8'')) = Inr 7
   \<and> GetBearerToken test_env (Header (test_request ''thumbnail'' ''owner'' ''image/png; charset=utf-8'')) = Inr ''owner''
   \<and> ValidateJWT test_env ''owner'' (jwtSecret test_cfg) = Inr 1
   \<and> FormFile (test_request ''thumbnail'' ''owner'' ''image/png; charset=utf-8'') ''thumbnail''
        = Inr ([1, 2, 3, 4], ''image/png; charset=utf-8'')
   \<and> handlerUploadThumbnail test_env test_cfg
        (test_request ''thumbnail'' ''owner'' ''image/png; charset=utf-8'') test_world
        = (RespondWithError StatusBadRequest ''Invalid file type'' None, test_world)
   \<and> db test_world 7 = Some test_video \<and> UserID test_video = 1
   \<and> FormFile (test_request ''video'' ''owner'' ''video/mp4; codecs=avc1'') ''video''
        = Inr ([1, 2, 3, 4], ''video/mp4; codecs=avc1'')
   \<and> ParseMediaType test_env ''video/mp4; codecs=avc1'' = Inr ''video/mp4''
   \<and> status (fst (handlerUploadVideo test_env test_cfg
        (test_request ''video'' ''owner'' ''video/mp4; codecs=avc1'') test_world)) \<noteq> StatusBadRequest"
proof -
  let ?rt = "test_request ''thumbnail'' ''owner'' ''image/png; charset=utf-8''"
  let ?rv = "test_request ''video'' ''owner'' ''video/mp4; codecs=avc1''"
  have t1: "uuid_Parse test_env (PathValue_videoID ?rt) = Inr 7" by (simp add: test_defs)
  have t2: "GetBearerToken test_env (Header ?rt) = Inr ''owner''" by (simp add: test_defs)
  have v1: "uuid_Parse test_env (PathValue_videoID ?rv) = Inr 7" by (simp add: test_defs)
  have v2: "GetBearerToken test_env (Header ?rv) = Inr ''owner''" by (simp add: test_defs)
  have j: "ValidateJWT test_env ''owner'' (jwtSecret test_cfg) = Inr 1" by (simp add: test_defs)
  have ft: "FormFile ?rt ''thumbnail'' = Inr ([1, 2, 3, 4], ''image/png; charset=utf-8'')"
    by (simp add: test_defs FormFile_def)
  have fv: "FormFile ?rv ''video'' = Inr ([1, 2, 3, 4], ''video/mp4; codecs=avc1'')"
    by (simp add: test_defs FormFile_def)
  have d: "db test_world 7 = Some test_video" "UserID test_video = 1" by (simp_all add: test_defs)
  have p: "ParseMediaType test_env ''video/mp4; codecs=avc1'' = Inr ''video/mp4''"
    by (simp add: test_defs)
  have a: "handlerUploadThumbnail test_env test_cfg ?rt test_world
        = (RespondWithError StatusBadRequest ''Invalid file type'' None, test_world)"
    using content_type_gates [OF t1 t2 j, of "[1, 2, 3, 4]" "''image/png; charset=utf-8''" test_world]
      ft by blast
  have b: "status (fst (handlerUploadVideo test_env test_cfg ?rv test_world)) \<noteq> StatusBadRequest"
    using content_type_gates [OF v1 v2 j, of "[1, 2, 3, 4]" "''video/mp4; codecs=avc1''" test_world test_video]
      fv d p by blast
  show ?thesis using t1 t2 j ft a d fv p b by (intro conjI)
qed

end
